theory Spec2Isabelle
  imports Main "HOL-Library.Word"
begin

section \<open>Go values shared by both components\<close>

text \<open>
  A Go \<open>error\<close> value is either built by \<open>errors.New\<close> (this covers the errors handed out
  by the context and by the RPC transport, which the code only passes on or logs) or by
  \<open>errors.Wrap\<close>. A nil error is \<open>None\<close> of \<open>error option\<close>; a call returning
  \<open>(value, error)\<close> whose value is ignored when the error is set is a sum, \<open>Inl\<close> the error.
\<close>

datatype error = ErrorsNew string | ErrorsWrap error string

fun Error :: "error \<Rightarrow> string" where
  "Error (ErrorsNew msg) = msg"
| "Error (ErrorsWrap err msg) = msg @ '': '' @ Error err"

text \<open>A Go \<open>[]string\<close>: \<open>None\<close> is the nil slice, \<open>Some xs\<close> a non-nil slice (possibly empty).\<close>

type_synonym strings = "string list option"

text \<open>A log line: the error attached with \<open>WithErr\<close> (if any) and the message.\<close>

type_synonym log_entry = "error option \<times> string"


section \<open>encoding/json on a slice of strings\<close>

text \<open>
  \<open>json.Marshal\<close> belongs to the Go standard library (the build image is golang:1.13).
  On a \<open>[]string\<close> it writes \<open>null\<close> for the nil slice and otherwise the elements as JSON
  strings between brackets, separated by commas. A string is written byte by byte: ASCII
  bytes outside the HTML-safe set are escaped, an invalid UTF-8 byte becomes the escape of U+FFFD, and the
  code points U+2028 and U+2029 are escaped. Strings are byte sequences, as in Go; an
  Isabelle \<open>char\<close> is one byte.
\<close>

definition RuneError :: nat where
  "RuneError = 0xFFFD"

definition RuneSelf :: nat where
  "RuneSelf = 0x80"

definition hex :: string where
  "hex = ''0123456789abcdef''"

definition htmlSafeSet :: "nat \<Rightarrow> bool" where
  "htmlSafeSet b \<longleftrightarrow>
     0x20 \<le> b \<and> b < 0x80 \<and> b \<noteq> 0x22 \<and> b \<noteq> 0x26 \<and> b \<noteq> 0x3C \<and> b \<noteq> 0x3E \<and> b \<noteq> 0x5C"

text \<open>\<open>utf8.DecodeRuneInString\<close>: the rune at the front of the string and its width in bytes.\<close>

definition continuation :: "nat \<Rightarrow> bool" where
  "continuation b \<longleftrightarrow> 0x80 \<le> b \<and> b \<le> 0xBF"

fun DecodeRuneInString :: "string \<Rightarrow> nat \<times> nat" where
  "DecodeRuneInString [] = (RuneError, 0)"
| "DecodeRuneInString (c0 # rest) =
     (let s0 = (of_char c0 :: nat) in
      if s0 < RuneSelf then (s0, 1)
      else if s0 < 0xC2 \<or> 0xF4 < s0 then (RuneError, 1)
      else
        (let sz = (if s0 < 0xE0 then 2 else if s0 < 0xF0 then 3 else 4 :: nat);
             lo = (if s0 = 0xE0 then 0xA0 else if s0 = 0xF0 then 0x90 else 0x80 :: nat);
             hi = (if s0 = 0xED then 0x9F else if s0 = 0xF4 then 0x8F else 0xBF :: nat)
         in
           if Suc (length rest) < sz then (RuneError, 1)
           else
             (let s1 = (of_char (rest ! 0) :: nat) in
              if s1 < lo \<or> hi < s1 then (RuneError, 1)
              else if sz \<le> 2 then ((s0 mod 0x20) * 0x40 + s1 mod 0x40, 2)
              else
                (let s2 = (of_char (rest ! 1) :: nat) in
                 if \<not> continuation s2 then (RuneError, 1)
                 else if sz \<le> 3 then
                   ((s0 mod 0x10) * 0x1000 + (s1 mod 0x40) * 0x40 + s2 mod 0x40, 3)
                 else
                   (let s3 = (of_char (rest ! 2) :: nat) in
                    if \<not> continuation s3 then (RuneError, 1)
                    else
                      ((s0 mod 0x08) * 0x40000 + (s1 mod 0x40) * 0x1000
                         + (s2 mod 0x40) * 0x40 + s3 mod 0x40, 4))))))"

text \<open>The escape written for an ASCII byte that is not HTML-safe.\<close>

definition escape_byte :: "char \<Rightarrow> string" where
  "escape_byte c =
     (let b = (of_char c :: nat) in
      CHR 0x5C #
        (if b = 0x5C \<or> b = 0x22 then [c]
         else if b = 0x0A then ''n''
         else if b = 0x0D then ''r''
         else if b = 0x09 then ''t''
         else ''u00'' @ [hex ! (b div 16), hex ! (b mod 16)]))"

text \<open>
  The body of \<open>encodeState.string\<close> between the two quotes. The source keeps a window
  \<open>[start, i)\<close> of bytes to copy unchanged; the model copies them one rune at a time.
\<close>

function string_body :: "string \<Rightarrow> string" where
  "string_body [] = []"
| "string_body (c # cs) =
     (if (of_char c :: nat) < RuneSelf then
        (if htmlSafeSet (of_char c) then c # string_body cs
         else escape_byte c @ string_body cs)
      else
        (let r = fst (DecodeRuneInString (c # cs));
             size = snd (DecodeRuneInString (c # cs))
         in
           if r = RuneError \<and> size = 1 then
             (CHR 0x5C # ''ufffd'') @ string_body cs
           else if r = 0x2028 \<or> r = 0x2029 then
             (CHR 0x5C # ''u202'') @ [hex ! (r mod 16)] @ string_body (drop (size - 1) cs)
           else
             take size (c # cs) @ string_body (drop (size - 1) cs)))"
  by pat_completeness auto
termination
  by (relation "measure length") auto

definition encode_string :: "string \<Rightarrow> string" where
  "encode_string s = CHR 0x22 # string_body s @ [CHR 0x22]"

fun encode_elems :: "string list \<Rightarrow> string" where
  "encode_elems [] = []"
| "encode_elems [x] = encode_string x"
| "encode_elems (x # y # ys) = encode_string x @ '','' @ encode_elems (y # ys)"

definition encode_strings :: "strings \<Rightarrow> string" where
  "encode_strings v =
     (case v of None \<Rightarrow> ''null'' | Some xs \<Rightarrow> ''['' @ encode_elems xs @ '']'')"

text \<open>\<open>json.Marshal\<close> on a \<open>[]string\<close>: it has no failing case for this type.\<close>

definition json_Marshal :: "strings \<Rightarrow> error + string" where
  "json_Marshal v = Inr (encode_strings v)"

text \<open>\<open>bytes.Compare\<close>: lexicographic comparison; a nil slice is the empty slice.\<close>

fun bytes_Compare :: "string \<Rightarrow> string \<Rightarrow> int" where
  "bytes_Compare [] [] = 0"
| "bytes_Compare [] (b # bs) = - 1"
| "bytes_Compare (a # as) [] = 1"
| "bytes_Compare (a # as) (b # bs) =
     (if (of_char a :: nat) < of_char b then - 1
      else if (of_char b :: nat) < of_char a then 1
      else bytes_Compare as bs)"


section \<open>The namespaces manager\<close>

subsection \<open>Events\<close>

text \<open>
  Modelled from the spec: the constant \<open>octant.EventTypeNamespaces\<close> is declared in package
  \<open>octant\<close>, which is not part of the sources; the spec's external interface gives the
  event type as \<open>namespaces\<close>.
\<close>

definition EventTypeNamespaces :: string where
  "EventTypeNamespaces = ''namespaces''"

text \<open>\<open>octant.Event\<close>; the data map holds string slices here.\<close>

record Event =
  Type :: string
  Data :: "string \<rightharpoonup> strings"

definition CreateNamespacesEvent :: "strings \<Rightarrow> Event" where
  "CreateNamespacesEvent namespaces =
     \<lparr>Type = EventTypeNamespaces, Data = [''namespaces'' \<mapsto> namespaces]\<rparr>"

subsection \<open>The update task\<close>

text \<open>
  What one invocation of the poller function meets: the result of
  \<open>n.namespacesGeneratorFunc(ctx, n.config)\<close> in this cycle, and the value of
  \<open>ctx.Err()\<close> when it is read after the generator has returned.
\<close>

record cycle =
  generated :: "error + strings"
  ctx_Err :: "error option"

text \<open>
  The state the closure returned by \<open>runUpdate\<close> works on: the captured variable
  \<open>previous\<close>, the events handed to \<open>client.Send\<close>, the lines logged, and the arguments
  of the calls of \<open>json.Marshal\<close>, each in order of occurrence.
\<close>

record update_state =
  previous :: string
  sent :: "Event list"
  logged :: "log_entry list"
  marshalled :: "strings list"

text \<open>\<open>var previous []byte\<close>: the closure starts with the nil slice and has done nothing.\<close>

definition initial :: update_state where
  "initial = \<lparr>previous = [], sent = [], logged = [], marshalled = []\<rparr>"

text \<open>The closure returned by \<open>runUpdate\<close>: one poll cycle.\<close>

definition runUpdate :: "cycle \<Rightarrow> update_state \<Rightarrow> bool \<times> update_state" where
  "runUpdate c s =
     (case generated c of
        Inl err \<Rightarrow> (False, s\<lparr>logged := logged s @ [(Some err, ''load namespaces'')]\<rparr>)
      | Inr namespaces \<Rightarrow>
          (if ctx_Err c = None then
             (let s1 = s\<lparr>marshalled := marshalled s @ [namespaces]\<rparr> in
              case json_Marshal namespaces of
                Inl err \<Rightarrow>
                  (False, s1\<lparr>logged := logged s1 @ [(Some err, ''unable to marshal namespaces'')]\<rparr>)
              | Inr cur \<Rightarrow>
                  (if bytes_Compare (previous s1) cur \<noteq> 0 then
                     (False, s1\<lparr>previous := cur,
                                sent := sent s1 @ [CreateNamespacesEvent namespaces]\<rparr>)
                   else (False, s1)))
           else (False, s)))"

text \<open>
  The closure invoked in successive cycles, sharing \<open>previous\<close>: the state after the
  cycles, and the events each cycle handed to \<open>client.Send\<close>.
\<close>

definition sends :: "cycle \<Rightarrow> update_state \<Rightarrow> Event list" where
  "sends c s = drop (length (sent s)) (sent (snd (runUpdate c s)))"

fun cycles :: "cycle list \<Rightarrow> update_state \<Rightarrow> update_state" where
  "cycles [] s = s"
| "cycles (c # cs) s = cycles cs (snd (runUpdate c s))"

fun send_trace :: "cycle list \<Rightarrow> update_state \<Rightarrow> Event list list" where
  "send_trace [] s = []"
| "send_trace (c # cs) s = sends c s # send_trace cs (snd (runUpdate c s))"

text \<open>A cycle whose generator call succeeds with the context not cancelled.\<close>

definition success :: "strings \<Rightarrow> cycle" where
  "success namespaces = \<lparr>generated = Inr namespaces, ctx_Err = None\<rparr>"

text \<open>
  The differ as the specification words it, to compare \<open>runUpdate\<close> with: given the last
  pushed serialization, an output is pushed if and only if its serialization differs from
  it, and a pushed serialization becomes the new baseline.
\<close>

fun spec_pushes :: "string \<Rightarrow> strings list \<Rightarrow> bool list" where
  "spec_pushes baseline [] = []"
| "spec_pushes baseline (out # outs) =
     (if encode_strings out = baseline then False # spec_pushes baseline outs
      else True # spec_pushes (encode_strings out) outs)"

fun spec_baseline :: "string \<Rightarrow> strings list \<Rightarrow> string" where
  "spec_baseline baseline [] = baseline"
| "spec_baseline baseline (out # outs) =
     (if encode_strings out = baseline then spec_baseline baseline outs
      else spec_baseline (encode_strings out) outs)"

definition spec_event :: "strings \<Rightarrow> bool \<Rightarrow> Event list" where
  "spec_event out pushed = (if pushed then [CreateNamespacesEvent out] else [])"

text \<open>
  The serialization of the namespaces carried by the last event handed to \<open>client.Send\<close>;
  empty while nothing has been sent.
\<close>

definition last_pushed :: "update_state \<Rightarrow> string" where
  "last_pushed s =
     (case sent s of
        [] \<Rightarrow> []
      | e # es \<Rightarrow>
          (case Data (last (e # es)) ''namespaces'' of
             None \<Rightarrow> []
           | Some namespaces \<Rightarrow> encode_strings namespaces))"

subsection \<open>The default generator\<close>

text \<open>
  The interfaces of package \<open>cluster\<close> as the generator uses them: each field is what the
  method returns when the generator calls it. An interface value that may be nil is an
  option; calling a method on nil panics.
\<close>

type_synonym "context" = "error option"

record NamespaceInterface =
  Names :: "error + strings"
  InitialNamespace :: string

record ClientInterface =
  NamespaceClient :: "error + NamespaceInterface option"

record NamespaceManagerConfig =
  ClusterClient :: "ClientInterface option"

datatype 'a outcome = Panic | Return 'a

definition NamespacesGenerator ::
  "context \<Rightarrow> NamespaceManagerConfig option \<Rightarrow> (error + strings) outcome" where
  "NamespacesGenerator ctx config =
     (case config of
        None \<Rightarrow> Return (Inl (ErrorsNew ''namespaces manager config is nil''))
      | Some cfg \<Rightarrow>
          (case ClusterClient cfg of
             None \<Rightarrow> Panic
           | Some clusterClient \<Rightarrow>
               (case NamespaceClient clusterClient of
                  Inl err \<Rightarrow> Return (Inl (ErrorsWrap err ''retrieve namespaces client''))
                | Inr None \<Rightarrow> Panic
                | Inr (Some namespaceClient) \<Rightarrow>
                    (case Names namespaceClient of
                       Inl err \<Rightarrow> Return (Inr (Some [InitialNamespace namespaceClient]))
                     | Inr names \<Rightarrow> Return (Inr names)))))"


section \<open>The dashboard API client\<close>

subsection \<open>Messages\<close>

text \<open>
  The request and response messages of package \<open>proto\<close>, with the fields the client
  reads and writes. The key request (type \<open>'kr\<close>) and the encoded object (type \<open>'d\<close>)
  are opaque to the client.
\<close>

record 'd GetResponse =
  Object :: 'd

record 'd UpdateRequest =
  Object :: 'd

record proto_PortForwardRequest =
  Namespace :: string
  PodName :: string
  PortNumber :: "32 word"

record proto_PortForwardResponse =
  PortForwardID :: string
  PortNumber :: "32 word"

record CancelPortForwardRequest =
  PortForwardID :: string

text \<open>
  Modelled from the spec: the declaration of \<open>PortForwardRequest\<close> is not part of the
  sources; the spec gives its fields as namespace, pod name and port, the port being a
  16-bit value like the \<open>uint16\<close> port of the response.
\<close>

record PortForwardRequest =
  Namespace :: string
  PodName :: string
  Port :: "16 word"

record PortForwardResponse =
  ID :: string
  Port :: "16 word"

subsection \<open>The connection and the remote side\<close>

text \<open>
  The stub \<open>proto.DashboardClient\<close>: every method is a call into the extension process,
  whose state has type \<open>'s\<close>; it returns an error or a response, and the new state. A
  call that returns no error returns a response, as generated gRPC stubs do.
\<close>

record ('s, 'kr, 'd) DashboardClient =
  client_Get :: "context \<Rightarrow> 'kr \<Rightarrow> 's \<Rightarrow> (error + 'd GetResponse) \<times> 's"
  client_Update :: "context \<Rightarrow> 'd UpdateRequest \<Rightarrow> 's \<Rightarrow> error option \<times> 's"
  client_PortForward ::
    "context \<Rightarrow> proto_PortForwardRequest \<Rightarrow> 's \<Rightarrow> (error + proto_PortForwardResponse) \<times> 's"
  client_CancelPortForward :: "context \<Rightarrow> CancelPortForwardRequest \<Rightarrow> 's \<Rightarrow> error option \<times> 's"

text \<open>
  \<open>DashboardConnection.Client()\<close> hands out the stub of the connection; a \<open>Client\<close>
  built by \<open>NewClient\<close> always holds a connection.
\<close>

record ('s, 'kr, 'd) DashboardConnection =
  Client :: "('s, 'kr, 'd) DashboardClient"

record ('s, 'kr, 'd) Client =
  DashboardConnection :: "('s, 'kr, 'd) DashboardConnection"

text \<open>
  The conversions between native and wire shapes are defined in another file of the
  package; the client is verified for any such functions. \<open>convertToObject\<close> returns
  the object, whether it was found, and an error.
\<close>

record ('k, 'kr, 'o, 'd) conversions =
  convertFromKey :: "'k \<Rightarrow> error + 'kr"
  convertToObject :: "'d \<Rightarrow> 'o option \<times> bool \<times> error option"
  convertFromObject :: "'o option \<Rightarrow> error + 'd"

text \<open>
  What a client call can touch: the state of the extension process, the remote calls
  made so far and the lines logged so far.
\<close>

datatype ('kr, 'd) rpc =
  GetRPC 'kr
| UpdateRPC "'d UpdateRequest"
| PortForwardRPC proto_PortForwardRequest
| CancelPortForwardRPC CancelPortForwardRequest

record ('s, 'kr, 'd) world =
  remote :: 's
  rpcs :: "('kr, 'd) rpc list"
  logs :: "log_entry list"

definition invoke ::
  "('kr, 'd) rpc \<Rightarrow> ('s \<Rightarrow> 'r \<times> 's) \<Rightarrow> ('s, 'kr, 'd) world \<Rightarrow> 'r \<times> ('s, 'kr, 'd) world" where
  "invoke call f w =
     (case f (remote w) of (r, s') \<Rightarrow> (r, w\<lparr>remote := s', rpcs := rpcs w @ [call]\<rparr>))"

subsection \<open>The operations\<close>

definition Get ::
  "('k, 'kr, 'o, 'd) conversions \<Rightarrow> ('s, 'kr, 'd) Client \<Rightarrow> context \<Rightarrow> 'k \<Rightarrow>
   ('s, 'kr, 'd) world \<Rightarrow> ('o option \<times> bool \<times> error option) \<times> ('s, 'kr, 'd) world" where
  "Get cv c ctx key w =
     (let client = Client (DashboardConnection c) in
      case convertFromKey cv key of
        Inl err \<Rightarrow> ((None, False, Some err), w)
      | Inr keyRequest \<Rightarrow>
          (case invoke (GetRPC keyRequest) (client_Get client ctx keyRequest) w of
             (Inl err, w') \<Rightarrow> ((None, False, Some err), w')
           | (Inr resp, w') \<Rightarrow>
               (case convertToObject cv (GetResponse.Object resp) of
                  (object, found, Some err) \<Rightarrow> ((None, False, Some err), w')
                | (object, found, None) \<Rightarrow> ((object, found, None), w'))))"

definition Update ::
  "('k, 'kr, 'o, 'd) conversions \<Rightarrow> ('s, 'kr, 'd) Client \<Rightarrow> context \<Rightarrow> 'o option \<Rightarrow>
   ('s, 'kr, 'd) world \<Rightarrow> error option \<times> ('s, 'kr, 'd) world" where
  "Update cv c ctx object w =
     (let client = Client (DashboardConnection c) in
      case convertFromObject cv object of
        Inl err \<Rightarrow> (Some err, w)
      | Inr data \<Rightarrow>
          (let req = \<lparr>UpdateRequest.Object = data\<rparr> in
           invoke (UpdateRPC req) (client_Update client ctx req) w))"

definition PortForward ::
  "('s, 'kr, 'd) Client \<Rightarrow> context \<Rightarrow> PortForwardRequest \<Rightarrow>
   ('s, 'kr, 'd) world \<Rightarrow> (error + PortForwardResponse) \<times> ('s, 'kr, 'd) world" where
  "PortForward c ctx req w =
     (let client = Client (DashboardConnection c);
          pfRequest = \<lparr>proto_PortForwardRequest.Namespace = PortForwardRequest.Namespace req,
                       proto_PortForwardRequest.PodName = PortForwardRequest.PodName req,
                       PortNumber = ucast (PortForwardRequest.Port req)\<rparr>
      in
        case invoke (PortForwardRPC pfRequest) (client_PortForward client ctx pfRequest) w of
          (Inl err, w') \<Rightarrow> (Inl err, w')
        | (Inr resp, w') \<Rightarrow>
            (Inr \<lparr>ID = proto_PortForwardResponse.PortForwardID resp,
                  Port = ucast (proto_PortForwardResponse.PortNumber resp)\<rparr>, w'))"

text \<open>\<open>CancelPortForward\<close> has no result: all it leaves behind is in the world.\<close>

definition CancelPortForward ::
  "('s, 'kr, 'd) Client \<Rightarrow> context \<Rightarrow> string \<Rightarrow> ('s, 'kr, 'd) world \<Rightarrow> ('s, 'kr, 'd) world" where
  "CancelPortForward c ctx pfid w =
     (let client = Client (DashboardConnection c);
          req = \<lparr>PortForwardID = pfid\<rparr>
      in
        case invoke (CancelPortForwardRPC req) (client_CancelPortForward client ctx req) w of
          (None, w') \<Rightarrow> w'
        | (Some err, w') \<Rightarrow>
            w'\<lparr>logs := logs w' @ [(None, ''unable to cancel port forward: '' @ Error err)]\<rparr>)"

text \<open>The message \<open>PortForward\<close> puts on the wire for a request.\<close>

definition wire_request :: "PortForwardRequest \<Rightarrow> proto_PortForwardRequest" where
  "wire_request req =
     \<lparr>proto_PortForwardRequest.Namespace = PortForwardRequest.Namespace req,
      proto_PortForwardRequest.PodName = PortForwardRequest.PodName req,
      PortNumber = ucast (PortForwardRequest.Port req)\<rparr>"

subsection \<open>A fake extension\<close>

text \<open>
  A stand-in for the stub, in the manner of the package's generated fakes: the remote
  state is the list of open port-forward sessions. \<open>Get\<close> fails for the key
  \<open>unreachable\<close> and otherwise echoes the key as the object; \<open>PortForward\<close> opens the
  session \<open>pf-1\<close> on the local port 57536 above the requested one; \<open>CancelPortForward\<close>
  fails for a session that is not open.
\<close>

definition fake_DashboardClient :: "(string list, string, string) DashboardClient" where
  "fake_DashboardClient =
     \<lparr>client_Get = (\<lambda>ctx keyRequest s.
        if keyRequest = ''unreachable'' then (Inl (ErrorsNew ''connection refused''), s)
        else (Inr \<lparr>GetResponse.Object = keyRequest\<rparr>, s)),
      client_Update = (\<lambda>ctx req s. (None, s)),
      client_PortForward = (\<lambda>ctx req s.
        (Inr \<lparr>proto_PortForwardResponse.PortForwardID = ''pf-1'',
              PortNumber = proto_PortForwardRequest.PortNumber req + 57536\<rparr>, ''pf-1'' # s)),
      client_CancelPortForward = (\<lambda>ctx req s.
        if PortForwardID req \<in> set s then (None, remove1 (PortForwardID req) s)
        else (Some (ErrorsNew ''unknown port forward''), s))\<rparr>"

definition fake_Client :: "(string list, string, string) Client" where
  "fake_Client = \<lparr>DashboardConnection = \<lparr>Client = fake_DashboardClient\<rparr>\<rparr>"

text \<open>
  Conversions for the fake: keys and objects are strings; the empty key and the nil object
  do not convert, and the data \<open>absent\<close> stands for an object that is not in the store.
\<close>

definition fake_conversions :: "(string, string, string, string) conversions" where
  "fake_conversions =
     \<lparr>convertFromKey = (\<lambda>key. if key = [] then Inl (ErrorsNew ''empty key'') else Inr key),
      convertToObject = (\<lambda>data. if data = ''absent'' then (None, False, None)
                                 else (Some data, True, None)),
      convertFromObject = (\<lambda>object. case object of
                              None \<Rightarrow> Inl (ErrorsNew ''nil object'')
                            | Some data \<Rightarrow> Inr data)\<rparr>"

definition fake_world :: "string list \<Rightarrow> (string list, string, string) world" where
  "fake_world sessions = \<lparr>remote = sessions, rpcs = [], logs = []\<rparr>"


section \<open>Properties of the namespaces manager\<close>

subsection \<open>Serialization and comparison\<close>

lemma bytes_Compare_eq_0: "bytes_Compare a b = 0 \<longleftrightarrow> a = b"
  by (induction a b rule: bytes_Compare.induct) auto

lemma encode_strings_nonempty: "encode_strings v \<noteq> []"
  by (cases v) (simp_all add: encode_strings_def)

subsection \<open>One cycle\<close>

lemma runUpdate_success:
  "runUpdate (success ns) s =
     (False,
      if encode_strings ns = previous s then s\<lparr>marshalled := marshalled s @ [ns]\<rparr>
      else s\<lparr>marshalled := marshalled s @ [ns], previous := encode_strings ns,
             sent := sent s @ [CreateNamespacesEvent ns]\<rparr>)"
  by (auto simp add: runUpdate_def success_def json_Marshal_def bytes_Compare_eq_0 Let_def)

lemma runUpdate_failure:
  "generated c = Inl err \<Longrightarrow>
     runUpdate c s = (False, s\<lparr>logged := logged s @ [(Some err, ''load namespaces'')]\<rparr>)"
  by (simp add: runUpdate_def)

lemma runUpdate_cancelled:
  "generated c = Inr ns \<Longrightarrow> ctx_Err c = Some e \<Longrightarrow> runUpdate c s = (False, s)"
  by (simp add: runUpdate_def)

text \<open>The poller function never asks the poller to stop.\<close>

lemma fst_runUpdate: "fst (runUpdate c s) = False"
  by (simp add: runUpdate_def Let_def json_Marshal_def split: sum.splits)

lemma sends_success:
  "sends (success ns) s =
     (if encode_strings ns = previous s then [] else [CreateNamespacesEvent ns])"
  by (simp add: sends_def runUpdate_success)

subsection \<open>The baseline is the last pushed serialization\<close>

lemma last_pushed_step:
  assumes inv: "previous s = last_pushed s"
  shows "previous (snd (runUpdate c s)) = last_pushed (snd (runUpdate c s))"
proof (cases "generated c")
  case (Inl err)
  with inv show ?thesis by (simp add: runUpdate_failure last_pushed_def)
next
  case (Inr ns)
  show ?thesis
  proof (cases "ctx_Err c")
    case None
    with Inr have c: "c = success ns" by (simp add: success_def)
    show ?thesis using inv unfolding c
      by (cases "sent s")
        (simp_all add: runUpdate_success last_pushed_def CreateNamespacesEvent_def)
  next
    case (Some e)
    with Inr inv show ?thesis by (simp add: runUpdate_cancelled)
  qed
qed

lemma previous_is_last_pushed:
  "previous s = last_pushed s \<Longrightarrow> previous (cycles cs s) = last_pushed (cycles cs s)"
  by (induction cs arbitrary: s) (simp_all add: last_pushed_step)

lemma initial_last_pushed: "previous initial = last_pushed initial"
  by (simp add: initial_def last_pushed_def)

subsection \<open>Sequences of cycles\<close>

lemma send_trace_success:
  "send_trace (map success outs) s = map2 spec_event outs (spec_pushes (previous s) outs)"
  by (induction outs arbitrary: s) (simp_all add: sends_success runUpdate_success spec_event_def)

lemma cycles_success_baseline:
  "previous (cycles (map success outs) s) = spec_baseline (previous s) outs"
  by (induction outs arbitrary: s) (simp_all add: runUpdate_success)

lemma send_trace_append:
  "send_trace (xs @ ys) s = send_trace xs s @ send_trace ys (cycles xs s)"
  by (induction xs arbitrary: s) simp_all

lemma cycles_append: "cycles (xs @ ys) s = cycles ys (cycles xs s)"
  by (induction xs arbitrary: s) simp_all

lemma failures_keep_state:
  "\<forall>c \<in> set fs. isl (generated c) \<Longrightarrow>
     previous (cycles fs s) = previous s \<and> sent (cycles fs s) = sent s
     \<and> send_trace fs s = replicate (length fs) []"
proof (induction fs arbitrary: s)
  case Nil
  show ?case by simp
next
  case (Cons c fs)
  from Cons.prems obtain err where g: "generated c = Inl err"
    by (cases "generated c") auto
  from Cons.prems have rest: "\<forall>c \<in> set fs. isl (generated c)" by simp
  show ?case
    using Cons.IH [OF rest, of "snd (runUpdate c s)"]
    by (simp add: runUpdate_failure [OF g] sends_def)
qed

subsection \<open>The claims about the update task\<close>

text \<open>
  Claim C1. After any history of cycles, a cycle whose generator call succeeds with the
  context not cancelled hands an event to the sink if and only if the JSON serialization
  of its output differs from the serialization pushed last (empty before the first push);
  after the cycle that serialization is the baseline, so that the same output in the next
  cycle pushes nothing. Over a whole sequence of successful outputs the pushes are those of
  the differ as the specification describes it.
\<close>

theorem push_iff_serialization_differs:
  "json_Marshal namespaces = Inr (encode_strings namespaces)
   \<and> sends (success namespaces) (cycles cs initial) =
       (if encode_strings namespaces = last_pushed (cycles cs initial) then []
        else [CreateNamespacesEvent namespaces])
   \<and> last_pushed (snd (runUpdate (success namespaces) (cycles cs initial)))
       = encode_strings namespaces
   \<and> previous (snd (runUpdate (success namespaces) (cycles cs initial)))
       = encode_strings namespaces
   \<and> sends (success namespaces) (snd (runUpdate (success namespaces) (cycles cs initial))) = []
   \<and> send_trace (map success outs) initial = map2 spec_event outs (spec_pushes [] outs)
   \<and> previous (cycles (map success outs) initial) = spec_baseline [] outs"
proof -
  let ?s = "cycles cs initial"
  let ?s' = "snd (runUpdate (success namespaces) ?s)"
  have inv: "previous ?s = last_pushed ?s"
    by (rule previous_is_last_pushed [OF initial_last_pushed])
  have inv': "previous ?s' = last_pushed ?s'"
    by (rule last_pushed_step [OF inv])
  have p: "previous ?s' = encode_strings namespaces"
    by (simp add: runUpdate_success)
  have t: "send_trace (map success outs) initial = map2 spec_event outs (spec_pushes [] outs)"
    using send_trace_success [of outs initial] by (simp add: initial_def)
  have b: "previous (cycles (map success outs) initial) = spec_baseline [] outs"
    using cycles_success_baseline [of outs initial] by (simp add: initial_def)
  show ?thesis
    using inv inv' p t b by (simp add: sends_success json_Marshal_def)
qed

theorem push_iff_witness:
  "sends (success (Some [''default'', ''kube-system'']))
      (cycles [success (Some [''default''])] initial)
     = [CreateNamespacesEvent (Some [''default'', ''kube-system''])]
   \<and> sends (success (Some [''default''])) (cycles [success (Some [''default''])] initial) = []"
  using push_iff_serialization_differs
      [of "Some [''default'', ''kube-system'']" "[success (Some [''default''])]"]
    push_iff_serialization_differs [of "Some [''default'']" "[success (Some [''default''])]"]
  by (simp add: runUpdate_success initial_def last_pushed_def CreateNamespacesEvent_def
      encode_strings_def encode_string_def RuneSelf_def htmlSafeSet_def)

text \<open>
  Claim C2. With the baseline empty, a cycle whose generator call succeeds with the context
  not cancelled sends exactly one event, of type \<open>namespaces\<close>, whose data maps
  \<open>namespaces\<close> to the generated list; the serialization becomes the baseline.
\<close>

theorem first_success_pushes_once:
  assumes "previous s = []"
  shows "runUpdate (success namespaces) s
           = (False, s\<lparr>marshalled := marshalled s @ [namespaces],
                        previous := encode_strings namespaces,
                        sent := sent s @ [\<lparr>Type = ''namespaces'',
                                           Data = [''namespaces'' \<mapsto> namespaces]\<rparr>]\<rparr>)
         \<and> sends (success namespaces) s
           = [\<lparr>Type = ''namespaces'', Data = [''namespaces'' \<mapsto> namespaces]\<rparr>]"
  using assms encode_strings_nonempty [of namespaces]
  by (simp add: sends_success runUpdate_success CreateNamespacesEvent_def
      EventTypeNamespaces_def)

theorem first_success_witness:
  "previous initial = []
   \<and> sends (success (Some [''default''])) initial
       = [\<lparr>Type = ''namespaces'', Data = [''namespaces'' \<mapsto> Some [''default'']]\<rparr>]
   \<and> sent (snd (runUpdate (success (Some [''default''])) initial))
       = [\<lparr>Type = ''namespaces'', Data = [''namespaces'' \<mapsto> Some [''default'']]\<rparr>]"
proof -
  have h: "previous initial = []" by (simp add: initial_def)
  show ?thesis
    using h first_success_pushes_once [OF h, of "Some [''default'']"]
    by (simp add: initial_def)
qed

text \<open>
  Claim C3, as amended. A cycle whose generator call fails returns false, so the loop
  continues, sends nothing and leaves the baseline and the events sent as they were,
  whatever the state it starts in; so do any number of such cycles in a row. Starting from
  the empty baseline, any number of them followed by a cycle whose generator call succeeds
  with the context not cancelled send exactly one event, in the last cycle, carrying the
  generated list, whose serialization becomes the baseline; that cycle returns false too.
\<close>

theorem failures_then_success:
  assumes "\<forall>c \<in> set fs. isl (generated c)"
  shows "(\<forall>c \<in> set fs. \<forall>s. fst (runUpdate c s) = False
            \<and> sends c s = []
            \<and> sent (snd (runUpdate c s)) = sent s
            \<and> previous (snd (runUpdate c s)) = previous s)
         \<and> send_trace fs s0 = replicate (length fs) []
         \<and> sent (cycles fs s0) = sent s0
         \<and> previous (cycles fs s0) = previous s0
         \<and> fst (runUpdate (success namespaces) (cycles fs initial)) = False
         \<and> send_trace (fs @ [success namespaces]) initial
           = replicate (length fs) [] @ [[CreateNamespacesEvent namespaces]]
         \<and> sent (cycles (fs @ [success namespaces]) initial)
           = [CreateNamespacesEvent namespaces]
         \<and> previous (cycles (fs @ [success namespaces]) initial)
           = encode_strings namespaces"
proof -
  have step: "\<forall>c \<in> set fs. \<forall>s. fst (runUpdate c s) = False
            \<and> sends c s = []
            \<and> sent (snd (runUpdate c s)) = sent s
            \<and> previous (snd (runUpdate c s)) = previous s"
  proof (intro ballI allI)
    fix c s
    assume "c \<in> set fs"
    with assms obtain err where g: "generated c = Inl err"
      by (cases "generated c") auto
    show "fst (runUpdate c s) = False
            \<and> sends c s = []
            \<and> sent (snd (runUpdate c s)) = sent s
            \<and> previous (snd (runUpdate c s)) = previous s"
      by (simp add: runUpdate_failure [OF g] sends_def)
  qed
  from failures_keep_state [OF assms, of s0]
  have any: "send_trace fs s0 = replicate (length fs) []"
    "sent (cycles fs s0) = sent s0" "previous (cycles fs s0) = previous s0"
    by simp_all
  from failures_keep_state [OF assms, of initial]
  have p: "previous (cycles fs initial) = []" and e: "sent (cycles fs initial) = []"
    and t: "send_trace fs initial = replicate (length fs) []"
    by (simp_all add: initial_def)
  have last: "send_trace (fs @ [success namespaces]) initial
           = replicate (length fs) [] @ [[CreateNamespacesEvent namespaces]]
         \<and> sent (cycles (fs @ [success namespaces]) initial)
           = [CreateNamespacesEvent namespaces]
         \<and> previous (cycles (fs @ [success namespaces]) initial)
           = encode_strings namespaces"
    using p e t encode_strings_nonempty [of namespaces]
    by (simp add: send_trace_append cycles_append sends_success runUpdate_success)
  show ?thesis
    using step any last by (simp add: fst_runUpdate)
qed

theorem failures_then_success_witness:
  "isl (generated \<lparr>generated = Inl (ErrorsNew ''timeout''), ctx_Err = None\<rparr>)
   \<and> isl (generated \<lparr>generated = Inl (ErrorsNew ''refused''), ctx_Err = None\<rparr>)
   \<and> fst (runUpdate \<lparr>generated = Inl (ErrorsNew ''timeout''), ctx_Err = None\<rparr> initial) = False
   \<and> previous (snd (runUpdate \<lparr>generated = Inl (ErrorsNew ''timeout''), ctx_Err = None\<rparr>
        initial)) = []
   \<and> send_trace [\<lparr>generated = Inl (ErrorsNew ''timeout''), ctx_Err = None\<rparr>,
                 \<lparr>generated = Inl (ErrorsNew ''refused''), ctx_Err = None\<rparr>,
                 success (Some [''default''])] initial
       = [[], [], [CreateNamespacesEvent (Some [''default''])]]"
proof -
  have h: "\<forall>c \<in> set [\<lparr>generated = Inl (ErrorsNew ''timeout''), ctx_Err = None\<rparr>,
               \<lparr>generated = Inl (ErrorsNew ''refused''), ctx_Err = None\<rparr>].
      isl (generated c)" by simp
  show ?thesis
    using h failures_then_success [OF h, of initial "Some [''default'']"]
    by (simp add: numeral_2_eq_2 initial_def)
qed

text \<open>
  Claim C3 as stated fails when the context is cancelled by the time the successful
  generator call returns: one failure followed by such a success sends nothing.
\<close>

theorem cancelled_success_no_push:
  "send_trace [\<lparr>generated = Inl (ErrorsNew ''timeout''), ctx_Err = None\<rparr>,
               \<lparr>generated = Inr (Some [''default'']),
                ctx_Err = Some (ErrorsNew ''context canceled'')\<rparr>] initial
     = [[], []]
   \<and> sent (cycles [\<lparr>generated = Inl (ErrorsNew ''timeout''), ctx_Err = None\<rparr>,
               \<lparr>generated = Inr (Some [''default'']),
                ctx_Err = Some (ErrorsNew ''context canceled'')\<rparr>] initial) = []"
  by (simp add: sends_def runUpdate_def initial_def)

text \<open>
  Claim C5. The generator returns \<open>["a","b"]\<close>, \<open>["a","b"]\<close> and \<open>["b","a"]\<close> in three cycles
  with the context not cancelled: the first and the third cycle send an event, the second
  sends none, the two serializations being different byte strings.
\<close>

theorem reorder_scenario:
  "send_trace [success (Some [''a'', ''b'']), success (Some [''a'', ''b'']),
               success (Some [''b'', ''a''])] initial
     = [[CreateNamespacesEvent (Some [''a'', ''b''])], [],
        [CreateNamespacesEvent (Some [''b'', ''a''])]]
   \<and> encode_strings (Some [''a'', ''b'']) \<noteq> encode_strings (Some [''b'', ''a''])"
  by (simp add: sends_success runUpdate_success initial_def encode_strings_def
      encode_string_def RuneSelf_def htmlSafeSet_def)

text \<open>
  Claim C10. When the generator call succeeds and the context is cancelled at the check,
  the cycle returns false and changes nothing: no call of \<open>json.Marshal\<close>, no event sent,
  nothing logged, the baseline as before.
\<close>

theorem cancelled_cycle_is_skipped:
  assumes "generated c = Inr namespaces" and "ctx_Err c \<noteq> None"
  shows "runUpdate c s = (False, s)"
  using assms by (auto simp add: runUpdate_def)

theorem cancelled_cycle_witness:
  "runUpdate \<lparr>generated = Inr (Some [''default'']),
              ctx_Err = Some (ErrorsNew ''context canceled'')\<rparr> initial = (False, initial)"
  using cancelled_cycle_is_skipped
    [of "\<lparr>generated = Inr (Some [''default'']),
          ctx_Err = Some (ErrorsNew ''context canceled'')\<rparr>" "Some [''default'']" initial]
  by simp

subsection \<open>The default generator\<close>

text \<open>
  Claim C4. For a config that is not nil, whose cluster client hands out a namespace
  client without error, and whose \<open>Names\<close> call fails, the generator returns the
  one-element list holding the initial namespace and no error.
\<close>

theorem generator_falls_back:
  assumes "ClusterClient cfg = Some clusterClient"
    and "NamespaceClient clusterClient = Inr (Some namespaceClient)"
    and "Names namespaceClient = Inl err"
  shows "NamespacesGenerator ctx (Some cfg)
           = Return (Inr (Some [InitialNamespace namespaceClient]))"
  using assms by (simp add: NamespacesGenerator_def)

theorem generator_falls_back_witness:
  "NamespacesGenerator None
     (Some \<lparr>ClusterClient = Some \<lparr>NamespaceClient =
        Inr (Some \<lparr>Names = Inl (ErrorsNew ''forbidden''), InitialNamespace = ''default''\<rparr>)\<rparr>\<rparr>)
     = Return (Inr (Some [''default'']))"
  using generator_falls_back
    [of "\<lparr>ClusterClient = Some \<lparr>NamespaceClient =
        Inr (Some \<lparr>Names = Inl (ErrorsNew ''forbidden''), InitialNamespace = ''default''\<rparr>)\<rparr>\<rparr>"
        "\<lparr>NamespaceClient =
        Inr (Some \<lparr>Names = Inl (ErrorsNew ''forbidden''), InitialNamespace = ''default''\<rparr>)\<rparr>"
        "\<lparr>Names = Inl (ErrorsNew ''forbidden''), InitialNamespace = ''default''\<rparr>"
        "ErrorsNew ''forbidden''" None]
  by simp


section \<open>Properties of the dashboard API client\<close>

lemma unat_ucast_up: "unat (ucast (p :: 16 word) :: 32 word) = unat p"
proof -
  have "unat p < 2 ^ LENGTH(16)" by (rule unsigned_less)
  then have "unat p < 2 ^ 32" by simp
  then show ?thesis by (simp add: unsigned_ucast_eq take_bit_nat_eq_self)
qed

lemma unat_ucast_down: "unat (ucast (p :: 32 word) :: 16 word) = unat p mod 65536"
  by (simp add: unsigned_ucast_eq take_bit_eq_mod)

text \<open>When the object converts, \<open>Update\<close> does reach the remote side.\<close>

lemma Update_invokes_rpc:
  "convertFromObject cv object = Inr data \<Longrightarrow>
     rpcs (snd (Update cv c ctx object w)) = rpcs w @ [UpdateRPC \<lparr>UpdateRequest.Object = data\<rparr>]"
  by (simp add: Update_def invoke_def Let_def split: prod.splits)

text \<open>
  Claim C6. The key converts and the remote \<open>Get\<close> call succeeds: when the conversion of
  the response reports that the object was not found, without error, \<open>Get\<close> returns
  \<open>found = false\<close> and a nil error. When the remote call fails instead, \<open>Get\<close> returns
  \<open>found = false\<close> and that error, so the two outcomes differ in the error.
\<close>

theorem Get_absent_is_not_an_error:
  assumes "convertFromKey cv key = Inr keyRequest"
  shows "(client_Get (Client (DashboardConnection c)) ctx keyRequest (remote w) = (Inr resp, s')
            \<and> convertToObject cv (GetResponse.Object resp) = (object, False, None)
          \<longrightarrow> Get cv c ctx key w
              = ((object, False, None), w\<lparr>remote := s', rpcs := rpcs w @ [GetRPC keyRequest]\<rparr>))
       \<and> (client_Get (Client (DashboardConnection c)) ctx keyRequest (remote w) = (Inl err, s')
          \<longrightarrow> Get cv c ctx key w
              = ((None, False, Some err), w\<lparr>remote := s', rpcs := rpcs w @ [GetRPC keyRequest]\<rparr>))"
  using assms by (simp add: Get_def invoke_def)

theorem Get_absent_witness:
  "Get fake_conversions fake_Client None ''absent'' (fake_world [])
     = ((None, False, None), \<lparr>remote = [], rpcs = [GetRPC ''absent''], logs = []\<rparr>)
   \<and> Get fake_conversions fake_Client None ''unreachable'' (fake_world [])
     = ((None, False, Some (ErrorsNew ''connection refused'')),
        \<lparr>remote = [], rpcs = [GetRPC ''unreachable''], logs = []\<rparr>)"
proof -
  have a: "convertFromKey fake_conversions ''absent'' = Inr ''absent''"
    and u: "convertFromKey fake_conversions ''unreachable'' = Inr ''unreachable''"
    by (simp_all add: fake_conversions_def)
  show ?thesis
    using Get_absent_is_not_an_error [OF a, of fake_Client None "fake_world []"
        "\<lparr>GetResponse.Object = ''absent''\<rparr>" "[]" None]
      Get_absent_is_not_an_error [OF u, of fake_Client None "fake_world []" _ "[]" _
        "ErrorsNew ''connection refused''"]
    by (simp add: fake_conversions_def fake_Client_def fake_DashboardClient_def fake_world_def)
qed

text \<open>
  Claim C7. \<open>CancelPortForward\<close> has no result to carry an error. When the remote call
  fails, the call is made, the failure is logged, and nothing else happens; when it
  succeeds, nothing is logged. Called twice with the same session id it makes the remote
  call twice, whatever the outcome of either call.
\<close>

theorem CancelPortForward_only_logs:
  "(client_CancelPortForward (Client (DashboardConnection c)) ctx \<lparr>PortForwardID = pfid\<rparr>
       (remote w) = (Some err, s')
     \<longrightarrow> CancelPortForward c ctx pfid w
         = w\<lparr>remote := s',
             rpcs := rpcs w @ [CancelPortForwardRPC \<lparr>PortForwardID = pfid\<rparr>],
             logs := logs w @ [(None, ''unable to cancel port forward: '' @ Error err)]\<rparr>)
   \<and> (client_CancelPortForward (Client (DashboardConnection c)) ctx \<lparr>PortForwardID = pfid\<rparr>
       (remote w) = (None, s')
     \<longrightarrow> CancelPortForward c ctx pfid w
         = w\<lparr>remote := s',
             rpcs := rpcs w @ [CancelPortForwardRPC \<lparr>PortForwardID = pfid\<rparr>]\<rparr>)
   \<and> rpcs (CancelPortForward c ctx pfid (CancelPortForward c ctx pfid w))
       = rpcs w @ [CancelPortForwardRPC \<lparr>PortForwardID = pfid\<rparr>,
                   CancelPortForwardRPC \<lparr>PortForwardID = pfid\<rparr>]"
  by (auto simp add: CancelPortForward_def invoke_def Let_def split: prod.splits option.splits)

theorem CancelPortForward_witness:
  "CancelPortForward fake_Client None ''pf-1''
      (CancelPortForward fake_Client None ''pf-1'' (fake_world [''pf-1'']))
     = \<lparr>remote = [],
        rpcs = [CancelPortForwardRPC \<lparr>PortForwardID = ''pf-1''\<rparr>,
                CancelPortForwardRPC \<lparr>PortForwardID = ''pf-1''\<rparr>],
        logs = [(None, ''unable to cancel port forward: unknown port forward'')]\<rparr>"
proof -
  let ?w1 = "\<lparr>remote = [], rpcs = [CancelPortForwardRPC \<lparr>PortForwardID = ''pf-1''\<rparr>],
              logs = []\<rparr> :: (string list, string, string) world"
  have first: "CancelPortForward fake_Client None ''pf-1'' (fake_world [''pf-1'']) = ?w1"
    using CancelPortForward_only_logs
      [of fake_Client None "''pf-1''" "fake_world [''pf-1'']" _ "[]"]
    by (simp add: fake_Client_def fake_DashboardClient_def fake_world_def)
  have second: "CancelPortForward fake_Client None ''pf-1'' ?w1
      = ?w1\<lparr>rpcs := rpcs ?w1 @ [CancelPortForwardRPC \<lparr>PortForwardID = ''pf-1''\<rparr>],
             logs := logs ?w1 @ [(None, ''unable to cancel port forward: unknown port forward'')]\<rparr>"
    using CancelPortForward_only_logs [of fake_Client None "''pf-1''" ?w1
        "ErrorsNew ''unknown port forward''" "[]"]
    by (simp add: fake_Client_def fake_DashboardClient_def)
  show ?thesis
    unfolding first second by simp
qed

text \<open>
  Claim C8. When the conversion of the object fails, \<open>Update\<close> returns the conversion's
  error and leaves the world as it was: no remote call is made.
\<close>

theorem Update_conversion_failure_skips_rpc:
  assumes "convertFromObject cv object = Inl err"
  shows "Update cv c ctx object w = (Some err, w)"
  using assms by (simp add: Update_def)

theorem Update_conversion_failure_witness:
  "Update fake_conversions fake_Client None None (fake_world [])
     = (Some (ErrorsNew ''nil object''), fake_world [])
   \<and> rpcs (snd (Update fake_conversions fake_Client None None (fake_world []))) = []"
proof -
  have h: "convertFromObject fake_conversions None = Inl (ErrorsNew ''nil object'')"
    by (simp add: fake_conversions_def)
  show ?thesis
    using Update_conversion_failure_skips_rpc [OF h, of fake_Client None "fake_world []"]
    by (simp add: fake_world_def)
qed

text \<open>
  Claim C9, as amended. \<open>PortForward\<close> checks no range. It makes one remote call, whose
  port number is the request's 16-bit port widened unchanged, hence below 65536. When the
  call succeeds, the response carries the session id of the extension and the extension's
  port number reduced modulo 65536; when the call fails, the error is the call's.
\<close>

theorem PortForward_truncates_local_port:
  "rpcs (snd (PortForward c ctx req w)) = rpcs w @ [PortForwardRPC (wire_request req)]
   \<and> unat (proto_PortForwardRequest.PortNumber (wire_request req))
       = unat (PortForwardRequest.Port req)
   \<and> unat (proto_PortForwardRequest.PortNumber (wire_request req)) < 65536
   \<and> (client_PortForward (Client (DashboardConnection c)) ctx (wire_request req) (remote w)
         = (Inr resp, s')
       \<longrightarrow> (\<exists>r. fst (PortForward c ctx req w) = Inr r
               \<and> ID r = proto_PortForwardResponse.PortForwardID resp
               \<and> unat (PortForwardResponse.Port r)
                   = unat (proto_PortForwardResponse.PortNumber resp) mod 65536))
   \<and> (client_PortForward (Client (DashboardConnection c)) ctx (wire_request req) (remote w)
         = (Inl err, s')
       \<longrightarrow> fst (PortForward c ctx req w) = Inl err)"
proof -
  have "unat (PortForwardRequest.Port req) < 2 ^ LENGTH(16)"
    by (rule unsigned_less)
  then have b: "unat (PortForwardRequest.Port req) < 65536" by simp
  show ?thesis
    using b
    by (auto simp add: PortForward_def invoke_def Let_def wire_request_def unat_ucast_up
        unat_ucast_down split: prod.splits sum.splits)
qed

theorem PortForward_witness:
  "fst (PortForward fake_Client None
          \<lparr>PortForwardRequest.Namespace = ''default'', PortForwardRequest.PodName = ''web-0'',
           Port = 80\<rparr> (fake_world []))
     = Inr \<lparr>ID = ''pf-1'', Port = 57616\<rparr>"
  using PortForward_truncates_local_port [of fake_Client None
      "\<lparr>PortForwardRequest.Namespace = ''default'', PortForwardRequest.PodName = ''web-0'',
        Port = 80\<rparr>" "fake_world []"
      "\<lparr>proto_PortForwardResponse.PortForwardID = ''pf-1'', PortNumber = 57616\<rparr>" "[''pf-1'']"]
  by (simp add: PortForward_def invoke_def fake_Client_def fake_DashboardClient_def
      fake_world_def wire_request_def)

text \<open>
  Claim C9 as stated fails when the extension answers with a port number that does not
  fit in 16 bits: for the port 8080 of pod \<open>web-0\<close> the fake extension allocates the
  local port 65616, and \<open>PortForward\<close> returns the local port 80 and no error.
\<close>

theorem PortForward_no_range_check:
  "fst (PortForward fake_Client None
          \<lparr>PortForwardRequest.Namespace = ''default'', PortForwardRequest.PodName = ''web-0'',
           Port = 8080\<rparr> (fake_world []))
     = Inr \<lparr>ID = ''pf-1'', Port = 80\<rparr>
   \<and> client_PortForward fake_DashboardClient None
        \<lparr>proto_PortForwardRequest.Namespace = ''default'',
         proto_PortForwardRequest.PodName = ''web-0'', PortNumber = 8080\<rparr> []
     = (Inr \<lparr>proto_PortForwardResponse.PortForwardID = ''pf-1'', PortNumber = 65616\<rparr>,
        [''pf-1''])"
  by (simp add: PortForward_def invoke_def fake_Client_def fake_DashboardClient_def
      fake_world_def)

end
